theory Spec2Isabelle
  imports Main
begin

section \<open>Exceptions\<close>

text \<open>The Python exceptions that the modelled code can meet.\<close>

datatype error =
  IndexError | KeyError | TypeError | ValueError | OSError | RequestException

section \<open>Python strings\<close>

text \<open>
  A Python \<open>str\<close> is modelled as a \<open>string\<close> whose characters are the code points
  below 256 (ASCII and Latin-1). On these code points the regular expression class
  \<open>\d\<close> matches exactly \<open>0\<close> to \<open>9\<close>, \<open>str.isdigit\<close> accepts in addition the
  superscript digits U+00B2, U+00B3 and U+00B9, and \<open>str.lower\<close> maps \<open>A\<close> to \<open>Z\<close>
  and U+00C0 to U+00DE (without U+00D7) to the code point 32 above.
\<close>

definition is_decimal :: "char \<Rightarrow> bool" where
  "is_decimal c = (48 \<le> (of_char c :: nat) \<and> (of_char c :: nat) \<le> 57)"

definition isdigit :: "char \<Rightarrow> bool" where
  "isdigit c = (is_decimal c \<or> (of_char c :: nat) \<in> {178, 179, 185})"

definition lower_char :: "char \<Rightarrow> char" where
  "lower_char c =
     (let n = (of_char c :: nat) in
      if (65 \<le> n \<and> n \<le> 90) \<or> (192 \<le> n \<and> n \<le> 222 \<and> n \<noteq> 215)
      then (case c of Char b0 b1 b2 b3 b4 b5 b6 b7 \<Rightarrow> Char b0 b1 b2 b3 b4 True b6 b7)
      else c)"

definition lower :: "string \<Rightarrow> string" where
  "lower s = map lower_char s"

definition endswith :: "string \<Rightarrow> string \<Rightarrow> bool" where
  "endswith s suf = (length suf \<le> length s \<and> drop (length s - length suf) s = suf)"

fun startswith :: "string \<Rightarrow> string \<Rightarrow> bool" where
  "startswith s [] = True"
| "startswith [] (p # ps) = False"
| "startswith (c # cs) (p # ps) = (c = p \<and> startswith cs ps)"

text \<open>\<open>sub in s\<close> for strings: some suffix of \<open>s\<close> starts with \<open>sub\<close>.\<close>

fun contains :: "string \<Rightarrow> string \<Rightarrow> bool" where
  "contains [] sub = (sub = [])"
| "contains (c # cs) sub = (startswith (c # cs) sub \<or> contains cs sub)"

text \<open>\<open>s.lstrip(chars)\<close>: drop leading characters that occur in \<open>chars\<close>.\<close>

definition lstrip :: "string \<Rightarrow> string \<Rightarrow> string" where
  "lstrip chars s = dropWhile (\<lambda>c. c \<in> set chars) s"

text \<open>
  \<open>s.replace(old, new)\<close>: the occurrences of \<open>old\<close> are replaced from left to
  right and do not overlap. \<open>skip\<close> counts the characters of an occurrence still
  to be passed over.
\<close>

fun replace_from :: "nat \<Rightarrow> string \<Rightarrow> string \<Rightarrow> string \<Rightarrow> string" where
  "replace_from skip old new [] = []"
| "replace_from skip old new (c # cs) =
     (if skip > 0 then replace_from (skip - 1) old new cs
      else if startswith (c # cs) old then new @ replace_from (length old - 1) old new cs
      else c # replace_from 0 old new cs)"

definition replace :: "string \<Rightarrow> string \<Rightarrow> string \<Rightarrow> string" where
  "replace old new s =
     (if old = [] then new @ concat (map (\<lambda>c. c # new) s)
      else replace_from 0 old new s)"

text \<open>\<open>s.split(sep)\<close> for a separator of one character; the result is never empty.\<close>

fun split :: "char \<Rightarrow> string \<Rightarrow> string list" where
  "split sep [] = [] # []"
| "split sep (c # cs) =
     (if c = sep then [] # split sep cs
      else (case split sep cs of [] \<Rightarrow> [c] # [] | p # ps \<Rightarrow> (c # p) # ps))"

text \<open>\<open>s[:n]\<close>\<close>

definition slice_to :: "nat \<Rightarrow> 'a list \<Rightarrow> 'a list" where
  "slice_to n s = take n s"

text \<open>\<open>xs[-k]\<close> for \<open>k \<ge> 1\<close>: counted from the end, \<open>IndexError\<close> out of range.\<close>

definition index_from_end :: "'a list \<Rightarrow> nat \<Rightarrow> error + 'a" where
  "index_from_end xs k =
     (if 1 \<le> k \<and> k \<le> length xs then Inr (xs ! (length xs - k)) else Inl IndexError)"

section \<open>utils/versioning.py\<close>

text \<open>
  \<open>re.findall(r'\d+', s)\<close>: the maximal runs of decimal digits, from left to right.
  \<open>cur\<close> is the run being read.
\<close>

fun findall_digits :: "string \<Rightarrow> string \<Rightarrow> string list" where
  "findall_digits cur [] = (if cur = [] then [] else [cur])"
| "findall_digits cur (c # cs) =
     (if is_decimal c then findall_digits (cur @ [c]) cs
      else (if cur = [] then [] else [cur]) @ findall_digits [] cs)"

text \<open>The number that a string of decimal digits denotes; Python integers are unbounded.\<close>

definition digits_value :: "string \<Rightarrow> int" where
  "digits_value s = foldl (\<lambda>a c. 10 * a + (int (of_char c) - 48)) 0 s"

text \<open>
  \<open>int(num)\<close> on a string of decimal digits. CPython limits the conversion of a string
  to an integer: with the default limit (\<open>sys.int_max_str_digits\<close>, 4300) a string
  of more than 4300 digits raises \<open>ValueError\<close>, leading zeros included.
\<close>

definition int_of_digits :: "string \<Rightarrow> error + int" where
  "int_of_digits s = (if length s > 4300 then Inl ValueError else Inr (digits_value s))"

text \<open>
  \<open>tuple(int(num) for num in numbers)\<close>: every run is converted, from left to right;
  the first exception ends the conversion.
\<close>

fun int_all :: "string list \<Rightarrow> error + int list" where
  "int_all [] = Inr []"
| "int_all (num # numbers) =
     (case int_of_digits num of
        Inl err \<Rightarrow> Inl err
      | Inr v \<Rightarrow> (case int_all numbers of Inl err \<Rightarrow> Inl err | Inr vs \<Rightarrow> Inr (v # vs)))"

text \<open>The loop \<open>while len(version_tuple) < 3: version_tuple = version_tuple + (0,)\<close>.\<close>

function pad_version :: "int list \<Rightarrow> int list" where
  "pad_version t = (if length t < 3 then pad_version (t @ [0]) else t)"
  by pat_completeness auto
termination
  by (relation "measure (\<lambda>t. 3 - length t)") auto

declare pad_version.simps [simp del]

definition parse_version :: "string \<Rightarrow> error + int list" where
  "parse_version version_str =
     (if version_str = [] then Inr [0, 0, 0]
      else let version_str = lstrip ''v'' version_str;
               numbers = findall_digits [] version_str
           in case int_all numbers of
                Inl err \<Rightarrow> Inl err
              | Inr version_tuple \<Rightarrow>
                 let version_tuple = pad_version version_tuple
                 in Inr (slice_to 3 version_tuple))"

text \<open>
  Python's \<open>>\<close> on tuples: the first position where the two differ decides; if one is a
  prefix of the other, the longer one is the greater.
\<close>

fun tuple_gt :: "int list \<Rightarrow> int list \<Rightarrow> bool" where
  "tuple_gt [] ys = False"
| "tuple_gt (x # xs) [] = True"
| "tuple_gt (x # xs) (y # ys) = (if x = y then tuple_gt xs ys else x > y)"

definition is_newer_version :: "string \<Rightarrow> string \<Rightarrow> error + bool" where
  "is_newer_version current_version new_version =
     (case parse_version current_version of
        Inl err \<Rightarrow> Inl err
      | Inr current \<Rightarrow>
         (case parse_version new_version of
            Inl err \<Rightarrow> Inl err
          | Inr new \<Rightarrow> Inr (tuple_gt new current)))"




section \<open>Dates and times\<close>

text \<open>
  A \<open>datetime\<close> either has no time zone (\<open>Naive\<close>: microseconds of local wall-clock
  time, counted from 1970-01-01T00:00:00) or has one (\<open>Aware\<close>: the instant, in
  microseconds since the epoch in UTC). Two naive or two aware values are ordered by
  these numbers; Python refuses to order a naive against an aware value and raises
  \<open>TypeError\<close>. Values stay inside the years 1 to 9999, where adding a
  \<open>timedelta\<close> does not overflow.
\<close>

datatype datetime = Naive int | Aware int

definition days :: "int \<Rightarrow> int" where
  "days n = n * 86400000000"

fun dt_plus :: "datetime \<Rightarrow> int \<Rightarrow> datetime" where
  "dt_plus (Naive t) d = Naive (t + d)"
| "dt_plus (Aware t) d = Aware (t + d)"

fun dt_greater :: "datetime \<Rightarrow> datetime \<Rightarrow> error + bool" where
  "dt_greater (Naive a) (Naive b) = Inr (a > b)"
| "dt_greater (Aware a) (Aware b) = Inr (a > b)"
| "dt_greater (Naive a) (Aware b) = Inl TypeError"
| "dt_greater (Aware a) (Naive b) = Inl TypeError"

section \<open>Data of the hosting platform and of the device\<close>

text \<open>
  A repository of a search result (a JSON object). \<open>description\<close> may be null;
  \<open>repo_type\<close> is absent until the search assigns it.
\<close>

record repo =
  repo_id :: int
  name :: string
  owner_login :: string
  description :: "string option"
  topics :: "string list"
  updated_at :: string
  repo_type :: "string option"

text \<open>An asset of a release; either key may be missing.\<close>

record asset =
  asset_name :: "string option"
  browser_download_url :: "string option"

text \<open>The dictionary that \<open>get_latest_release\<close> returns.\<close>

record release =
  tag_name :: string
  release_name :: string
  published_at :: string
  body :: string
  html_url :: string
  assets :: "asset list"

text \<open>The dictionary that \<open>get_repository_commits\<close> returns.\<close>

record commits =
  latest_commit :: string
  latest_commit_date :: string
  commit_count :: nat

text \<open>An entry of the installed-plugins dictionary; a key may be missing.\<close>

record installed_info =
  version :: "string option"
  path :: "string option"

text \<open>
  What the update service reaches outside itself: the two calls of the injected
  \<open>github_api\<close> (each returns \<open>None\<close> when the request fails or finds nothing), the
  metadata file of an installed plugin (\<open>Inl\<close>: the file system raised; \<open>Inr None\<close>:
  the file does not exist; \<open>Inr (Some t)\<close>: it exists and
  \<open>datetime.fromtimestamp(st_mtime)\<close> is the naive local time \<open>t\<close>), the clock
  (local wall-clock time and UTC instant of now), and the standard library's
  \<open>datetime.fromisoformat\<close> (\<open>Inl ValueError\<close> on a malformed string).
\<close>

record env =
  get_latest_release :: "string \<Rightarrow> string \<Rightarrow> release option"
  get_repository_commits :: "string \<Rightarrow> string \<Rightarrow> commits option"
  meta_mtime :: "string \<Rightarrow> error + int option"
  now_local :: int
  now_utc :: int
  fromisoformat :: "string \<Rightarrow> error + datetime"

text \<open>The calls made outside, in the order they happen.\<close>

datatype call =
  GetLatestRelease string string
| MetaFileStat string
| GetRepositoryCommits string string
| DatetimeNow

text \<open>\<open>datetime.now(tz)\<close>, where \<open>tz\<close> is the \<open>tzinfo\<close> of the given value.\<close>

fun datetime_now :: "env \<Rightarrow> datetime \<Rightarrow> datetime" where
  "datetime_now e (Naive t) = Naive (now_local e)"
| "datetime_now e (Aware t) = Aware (now_utc e)"

section \<open>services/update\_service.py\<close>

text \<open>
  The dictionary that \<open>_check_plugin_update\<close> returns. Only \<open>has_update\<close> is always
  present; \<open>download_url\<close> is \<open>None\<close> both when the key is missing and when its value
  is \<open>None\<close> (the caller reads it with \<open>get\<close>).
\<close>

record update_info =
  has_update :: bool
  latest_version :: "string option"
  update_type :: "string option"
  download_url :: "string option"
  release_notes :: "string option"
  info_published_at :: "string option"

definition no_update :: update_info where
  "no_update = \<lparr>has_update = False, latest_version = None, update_type = None,
     download_url = None, release_notes = None, info_published_at = None\<rparr>"

text \<open>The loop over the assets of \<open>_get_release_download_url\<close>.\<close>

fun first_zip_asset :: "asset list \<Rightarrow> asset option" where
  "first_zip_asset [] = None"
| "first_zip_asset (a # as) =
     (if endswith (case asset_name a of None \<Rightarrow> [] | Some n \<Rightarrow> n) ''.zip''
      then Some a else first_zip_asset as)"

definition get_release_download_url :: "release \<Rightarrow> error + string option" where
  "get_release_download_url rel =
     (case first_zip_asset (assets rel) of
        Some a \<Rightarrow> Inr (browser_download_url a)
      | None \<Rightarrow>
         (case index_from_end (split CHR ''/'' (html_url rel)) 2 of
            Inl e \<Rightarrow> Inl e
          | Inr owner \<Rightarrow>
             (case index_from_end (split CHR ''/'' (html_url rel)) 1 of
                Inl e \<Rightarrow> Inl e
              | Inr repo \<Rightarrow>
                 if owner \<noteq> [] \<and> repo \<noteq> []
                 then Inr (Some (''https://github.com/'' @ owner @ ''/'' @ repo
                                 @ ''/archive/'' @ tag_name rel @ ''.zip''))
                 else Inr None)))"

text \<open>How one strategy of \<open>_check_plugin_update\<close> ends.\<close>

datatype outcome = Return update_info | Raise error | Fallthrough

text \<open>Strategy 1 (releases). Nothing here is inside a \<open>try\<close>.\<close>

definition strategy_release :: "env \<Rightarrow> installed_info \<Rightarrow> repo \<Rightarrow> call list \<times> outcome" where
  "strategy_release e installed available_plugin =
     (let owner = owner_login available_plugin;
          repo = name available_plugin;
          latest_release = get_latest_release e owner repo;
          log = [GetLatestRelease owner repo]
      in case latest_release of
           None \<Rightarrow> (log, Fallthrough)
         | Some rel \<Rightarrow>
            if tag_name rel = [] then (log, Fallthrough)
            else
              let installed_version = (case version installed of None \<Rightarrow> [] | Some v \<Rightarrow> v);
                  latest = tag_name rel;
                  installed_clean = lstrip ''v'' installed_version;
                  latest_clean = lstrip ''v'' latest
              in case is_newer_version installed_clean latest_clean of
                   Inl err \<Rightarrow> (log, Raise err)
                 | Inr True \<Rightarrow>
                    (case get_release_download_url rel of
                       Inl err \<Rightarrow> (log, Raise err)
                     | Inr url \<Rightarrow>
                        (log, Return \<lparr>has_update = True, latest_version = Some latest,
                           update_type = Some ''release'', download_url = url,
                           release_notes = Some (body rel),
                           info_published_at = Some (published_at rel)\<rparr>))
                 | Inr False \<Rightarrow> (log, Fallthrough))"

text \<open>
  The body of the \<open>try\<close> of strategy 2 (commit dates): \<open>Inl\<close> is an exception raised
  inside it, \<open>Inr None\<close> is reaching its end without a \<open>return\<close>.
\<close>

definition commit_body ::
  "env \<Rightarrow> string \<Rightarrow> string \<Rightarrow> string \<Rightarrow> call list \<times> (error + update_info option)" where
  "commit_body e installed_meta_path owner repo =
     (case meta_mtime e installed_meta_path of
        Inl err \<Rightarrow> ([MetaFileStat installed_meta_path], Inl err)
      | Inr None \<Rightarrow> ([MetaFileStat installed_meta_path], Inr None)
      | Inr (Some mtime) \<Rightarrow>
         let installed_time = Naive mtime;
             log = [MetaFileStat installed_meta_path, GetRepositoryCommits owner repo]
         in (case get_repository_commits e owner repo of
               None \<Rightarrow> (log, Inr None)
             | Some cs \<Rightarrow>
                (case fromisoformat e (replace ''Z'' ''+00:00'' (latest_commit_date cs)) of
                   Inl err \<Rightarrow> (log, Inl err)
                 | Inr latest_commit_dt \<Rightarrow>
                    (case dt_greater latest_commit_dt (dt_plus installed_time (days 1)) of
                       Inl err \<Rightarrow> (log, Inl err)
                     | Inr True \<Rightarrow>
                        (log, Inr (Some \<lparr>has_update = True,
                           latest_version = Some (slice_to 8 (latest_commit cs)),
                           update_type = Some ''commit'', download_url = None,
                           release_notes = None,
                           info_published_at = Some (latest_commit_date cs)\<rparr>))
                     | Inr False \<Rightarrow> (log, Inr None)))))"

text \<open>Strategy 2: the \<open>except Exception\<close> logs a warning and goes on.\<close>

definition strategy_commit :: "env \<Rightarrow> installed_info \<Rightarrow> repo \<Rightarrow> call list \<times> outcome" where
  "strategy_commit e installed available_plugin =
     (let owner = owner_login available_plugin;
          repo = name available_plugin;
          installed_meta_path = (case path installed of None \<Rightarrow> [] | Some p \<Rightarrow> p)
      in if installed_meta_path = [] then ([], Fallthrough)
         else (case commit_body e installed_meta_path owner repo of
                 (log, Inr (Some u)) \<Rightarrow> (log, Return u)
               | (log, Inr None) \<Rightarrow> (log, Fallthrough)
               | (log, Inl err) \<Rightarrow> (log, Fallthrough)))"

text \<open>The body of the \<open>try\<close> of strategy 3 (the repository's own \<open>updated_at\<close>).\<close>

definition repository_body ::
  "env \<Rightarrow> installed_info \<Rightarrow> repo \<Rightarrow> call list \<times> (error + update_info option)" where
  "repository_body e installed available_plugin =
     (let repo_updated = updated_at available_plugin
      in if repo_updated = [] then ([], Inr None)
         else (case fromisoformat e (replace ''Z'' ''+00:00'' repo_updated) of
                 Inl err \<Rightarrow> ([], Inl err)
               | Inr repo_updated_date \<Rightarrow>
                  let installed_version =
                        (case version installed of None \<Rightarrow> ''Unknown'' | Some v \<Rightarrow> v)
                  in if installed_version = ''Unknown''
                     then (case dt_greater repo_updated_date
                                  (dt_plus (datetime_now e repo_updated_date) (- days 7)) of
                             Inl err \<Rightarrow> ([DatetimeNow], Inl err)
                           | Inr True \<Rightarrow>
                              ([DatetimeNow], Inr (Some \<lparr>has_update = True,
                                 latest_version = Some ''Recent Update'',
                                 update_type = Some ''repository'', download_url = None,
                                 release_notes = None,
                                 info_published_at = Some repo_updated\<rparr>))
                           | Inr False \<Rightarrow> ([DatetimeNow], Inr None))
                     else ([], Inr None)))"

definition strategy_repository :: "env \<Rightarrow> installed_info \<Rightarrow> repo \<Rightarrow> call list \<times> outcome" where
  "strategy_repository e installed available_plugin =
     (case repository_body e installed available_plugin of
        (log, Inr (Some u)) \<Rightarrow> (log, Return u)
      | (log, Inr None) \<Rightarrow> (log, Fallthrough)
      | (log, Inl err) \<Rightarrow> (log, Fallthrough))"

text \<open>
  \<open>_check_plugin_update\<close>: the three strategies in order; the calls made outside are
  returned with the result.
\<close>

definition check_plugin_update ::
  "env \<Rightarrow> installed_info \<Rightarrow> repo \<Rightarrow> call list \<times> (error + update_info)" where
  "check_plugin_update e installed available_plugin =
     (case strategy_release e installed available_plugin of
        (log1, Return u) \<Rightarrow> (log1, Inr u)
      | (log1, Raise err) \<Rightarrow> (log1, Inl err)
      | (log1, Fallthrough) \<Rightarrow>
         (case strategy_commit e installed available_plugin of
            (log2, Return u) \<Rightarrow> (log1 @ log2, Inr u)
          | (log2, Raise err) \<Rightarrow> (log1 @ log2, Inl err)
          | (log2, Fallthrough) \<Rightarrow>
             (case strategy_repository e installed available_plugin of
                (log3, Return u) \<Rightarrow> (log1 @ log2 @ log3, Inr u)
              | (log3, Raise err) \<Rightarrow> (log1 @ log2 @ log3, Inl err)
              | (log3, Fallthrough) \<Rightarrow> (log1 @ log2 @ log3, Inr no_update))))"

text \<open>\<open>_find_available_plugin\<close>: three passes over the catalog.\<close>

definition find_available_plugin :: "string \<Rightarrow> repo list \<Rightarrow> repo option" where
  "find_available_plugin plugin_name available_plugins =
     (case find (\<lambda>p. name p = plugin_name) available_plugins of
        Some p \<Rightarrow> Some p
      | None \<Rightarrow>
         let clean_name = replace ''.koplugin'' [] plugin_name
         in (case find (\<lambda>p. name p = clean_name) available_plugins of
               Some p \<Rightarrow> Some p
             | None \<Rightarrow> find (\<lambda>p. lower (name p) = lower clean_name) available_plugins))"

text \<open>An entry of the dictionary that \<open>check_for_updates\<close> returns.\<close>

record update_entry =
  installed_version :: string
  entry_latest_version :: "string option"
  entry_update_type :: "string option"
  entry_download_url :: "string option"
  entry_release_notes :: string
  entry_published_at :: string

text \<open>
  \<open>check_for_updates\<close>: the loop over the installed plugins, in the order of the
  dictionary. It has no \<open>try\<close>: an exception of \<open>_check_plugin_update\<close> leaves
  the function.
\<close>

fun check_for_updates_loop ::
  "env \<Rightarrow> (string \<times> installed_info) list \<Rightarrow> repo list \<Rightarrow>
   (string \<rightharpoonup> update_entry) \<Rightarrow> error + (string \<rightharpoonup> update_entry)" where
  "check_for_updates_loop e [] available_plugins updates = Inr updates"
| "check_for_updates_loop e ((plugin_name, installed) # rest) available_plugins updates =
     (case find_available_plugin plugin_name available_plugins of
        None \<Rightarrow> check_for_updates_loop e rest available_plugins updates
      | Some available_plugin \<Rightarrow>
         (case snd (check_plugin_update e installed available_plugin) of
            Inl err \<Rightarrow> Inl err
          | Inr u \<Rightarrow>
             if has_update u
             then check_for_updates_loop e rest available_plugins
                    (updates(plugin_name \<mapsto>
                       \<lparr>installed_version =
                          (case version installed of None \<Rightarrow> ''Unknown'' | Some v \<Rightarrow> v),
                        entry_latest_version = latest_version u,
                        entry_update_type = update_type u,
                        entry_download_url = download_url u,
                        entry_release_notes =
                          (case release_notes u of None \<Rightarrow> [] | Some n \<Rightarrow> n),
                        entry_published_at =
                          (case info_published_at u of None \<Rightarrow> [] | Some p \<Rightarrow> p)\<rparr>))
             else check_for_updates_loop e rest available_plugins updates))"

definition check_for_updates ::
  "env \<Rightarrow> (string \<times> installed_info) list \<Rightarrow> repo list \<Rightarrow> error + (string \<rightharpoonup> update_entry)" where
  "check_for_updates e installed_plugins available_plugins =
     check_for_updates_loop e installed_plugins available_plugins Map.empty"

section \<open>api/github.py\<close>

definition base_url :: string where
  "base_url = ''https://api.github.com''"

subsection \<open>Search and classification\<close>

definition is_fast_path_valid_plugin :: "repo \<Rightarrow> bool" where
  "is_fast_path_valid_plugin repo_data =
     (let name_l = lower (name repo_data);
          description_l = lower (case description repo_data of None \<Rightarrow> [] | Some d \<Rightarrow> d);
          topics_l = topics repo_data
      in if endswith name_l ''.koplugin'' \<or> contains name_l ''koplugin''
            \<or> endswith name_l ''.patch'' \<or> contains (lower name_l) ''koreader.patches''
            \<or> contains name_l ''koreader''
         then True
         else if list_ex (\<lambda>topic. topic \<in> set topics_l)
                   [''koreader-plugin'', ''koreader-user-patch'', ''koreader'']
         then True
         else if contains description_l ''koreader'' then True
         else False)"

text \<open>
  The loop over the items of one search response. The state is the set \<open>seen\<close> of
  ids and the list \<open>all_results\<close>; an id is added to \<open>seen\<close> before the item is
  classified. The items are as the platform sends them: the keys that the loop reads
  (\<open>id\<close>, \<open>name\<close>, \<open>owner.login\<close>, \<open>topics\<close>) are present, so the loop body does not
  raise.
\<close>

fun process_items :: "repo list \<Rightarrow> int set \<times> repo list \<Rightarrow> int set \<times> repo list" where
  "process_items [] st = st"
| "process_items (r # rest) (seen, all_results) =
     (if repo_id r \<in> seen then process_items rest (seen, all_results)
      else
        let seen = insert (repo_id r) seen;
            name_l = lower (name r)
        in if contains name_l ''koplugin'' \<or> endswith name_l ''plugin''
              \<or> endswith name_l ''plugins''
           then
             let r = r\<lparr>repo_type := Some ''plugin''\<rparr>
             in if \<not> is_fast_path_valid_plugin r
                then process_items rest (seen, all_results)
                else process_items rest (seen, all_results @ [r])
           else if contains name_l ''patch'' \<or> contains name_l ''patches''
           then process_items rest (seen, all_results @ [r\<lparr>repo_type := Some ''patch''\<rparr>])
           else process_items rest (seen, all_results))"

text \<open>
  The loop over the queries. \<open>search q\<close> is the request for the query \<open>q\<close>: \<open>Inl\<close> when
  the request, its status check or its decoding raises (the \<open>except\<close> logs it and the
  next query follows), \<open>Inr items\<close> otherwise.
\<close>

fun search_loop ::
  "(string \<Rightarrow> error + repo list) \<Rightarrow> string list \<Rightarrow> int set \<times> repo list \<Rightarrow> int set \<times> repo list" where
  "search_loop search [] st = st"
| "search_loop search (q # qs) st =
     (case search q of
        Inl err \<Rightarrow> search_loop search qs st
      | Inr items \<Rightarrow> search_loop search qs (process_items items st))"

definition search_queries :: "string option \<Rightarrow> string list \<Rightarrow> string list" where
  "search_queries topic name_patterns =
     (case topic of None \<Rightarrow> [] | Some t \<Rightarrow> if t = [] then [] else [''topic:'' @ t])
     @ map (\<lambda>pattern. pattern @ '' in:name'') name_patterns"

definition search_repositories ::
  "(string \<Rightarrow> error + repo list) \<Rightarrow> string option \<Rightarrow> string list \<Rightarrow> repo list" where
  "search_repositories search topic name_patterns =
     snd (search_loop search (search_queries topic name_patterns) ({}, []))"

text \<open>
  For stating the properties of the search: what the loop body does with an item whose
  id was not seen (\<open>None\<close>: dropped), and the items of all answered queries in the
  order they are read.
\<close>

definition admitted :: "repo \<Rightarrow> repo option" where
  "admitted r =
     (let name_l = lower (name r)
      in if contains name_l ''koplugin'' \<or> endswith name_l ''plugin''
            \<or> endswith name_l ''plugins''
         then (if is_fast_path_valid_plugin (r\<lparr>repo_type := Some ''plugin''\<rparr>)
               then Some (r\<lparr>repo_type := Some ''plugin''\<rparr>) else None)
         else if contains name_l ''patch'' \<or> contains name_l ''patches''
         then Some (r\<lparr>repo_type := Some ''patch''\<rparr>)
         else None)"

text \<open>
  The acceptance filter in the specification's words: the name pattern, or a topic of
  the allow-set, or the firmware's name in the description.
\<close>

definition cheap_filter_spec :: "repo \<Rightarrow> bool" where
  "cheap_filter_spec r =
     ((endswith (lower (name r)) ''.koplugin'' \<or> contains (lower (name r)) ''koplugin''
       \<or> endswith (lower (name r)) ''.patch'' \<or> contains (lower (name r)) ''koreader'')
      \<or> list_ex (\<lambda>t. t \<in> set [''koreader-plugin'', ''koreader-user-patch'', ''koreader''])
           (topics r)
      \<or> contains (lower (case description r of None \<Rightarrow> [] | Some d \<Rightarrow> d)) ''koreader'')"

definition item_stream :: "(string \<Rightarrow> error + repo list) \<Rightarrow> string list \<Rightarrow> repo list" where
  "item_stream search qs =
     concat (map (\<lambda>q. case search q of Inl err \<Rightarrow> [] | Inr items \<Rightarrow> items) qs)"

subsection \<open>Downloads\<close>

type_synonym bytes = string

text \<open>An entry of a directory listing.\<close>

record file_entry =
  file_name :: string
  file_download_url :: "string option"
  file_sha :: string

record patch =
  patch_name :: string
  patch_download_url :: "string option"
  patch_sha :: string

text \<open>
  The requests of the download functions: the list of releases, the bytes behind a URL,
  a directory listing (each \<open>Inl\<close> when the request, its status check or its decoding
  raises) and the text behind a URL, which is read without a status check.
\<close>

record http =
  get_releases :: "string \<Rightarrow> error + release list"
  get_content :: "string \<Rightarrow> error + bytes"
  get_contents :: "string \<Rightarrow> error + file_entry list"
  get_text :: "string \<Rightarrow> error + string"

text \<open>
  The first \<open>try\<close> of \<open>download_repository_zip\<close>, with the URLs requested: \<open>Inl\<close> is an
  exception, \<open>Inr None\<close> is reaching the end of the block, \<open>Inr (Some content)\<close> is the
  \<open>return\<close> inside the loop. The loop leaves at the first asset whose name ends in
  \<open>.zip\<close>, by \<open>return\<close> or by exception.
\<close>

definition release_zip :: "http \<Rightarrow> string \<Rightarrow> string \<Rightarrow> string list \<times> (error + bytes option)" where
  "release_zip h owner repo =
     (let releases_url = base_url @ ''/repos/'' @ owner @ ''/'' @ repo @ ''/releases''
      in case get_releases h releases_url of
           Inl err \<Rightarrow> ([releases_url], Inl err)
         | Inr [] \<Rightarrow> ([releases_url], Inr None)
         | Inr (latest_release # older) \<Rightarrow>
            (case first_zip_asset (assets latest_release) of
               None \<Rightarrow> ([releases_url], Inr None)
             | Some a \<Rightarrow>
                (case browser_download_url a of
                   None \<Rightarrow> ([releases_url], Inl KeyError)
                 | Some zip_url \<Rightarrow>
                    (case get_content h zip_url of
                       Inl err \<Rightarrow> ([releases_url, zip_url], Inl err)
                     | Inr content \<Rightarrow> ([releases_url, zip_url], Inr (Some content))))))"

definition branch_url :: "string \<Rightarrow> string \<Rightarrow> string \<Rightarrow> string" where
  "branch_url owner repo branch =
     ''https://github.com/'' @ owner @ ''/'' @ repo @ ''/archive/refs/heads/'' @ branch @ ''.zip''"

definition download_repository_zip ::
  "http \<Rightarrow> string \<Rightarrow> string \<Rightarrow> string \<Rightarrow> string list \<times> bytes option" where
  "download_repository_zip h owner repo branch =
     (case release_zip h owner repo of
        (log, Inr (Some content)) \<Rightarrow> (log, Some content)
      | (log, other) \<Rightarrow>
         (case get_content h (branch_url owner repo branch) of
            Inr content \<Rightarrow> (log @ [branch_url owner repo branch], Some content)
          | Inl err \<Rightarrow>
             (case get_content h (branch_url owner repo ''master'') of
                Inr content \<Rightarrow>
                  (log @ [branch_url owner repo branch, branch_url owner repo ''master''],
                   Some content)
              | Inl err \<Rightarrow>
                  (log @ [branch_url owner repo branch, branch_url owner repo ''master''],
                   None))))"

text \<open>The loop of \<open>get_patch_files\<close>; \<open>name[0]\<close> of an empty name raises.\<close>

fun patch_loop :: "file_entry list \<Rightarrow> patch list \<Rightarrow> error + patch list" where
  "patch_loop [] patches = Inr patches"
| "patch_loop (f # files) patches =
     (if endswith (file_name f) ''.lua''
      then (case file_name f of
              [] \<Rightarrow> Inl IndexError
            | c # cs \<Rightarrow>
               if isdigit c
               then patch_loop files
                      (patches @ [\<lparr>patch_name = file_name f,
                                   patch_download_url = file_download_url f,
                                   patch_sha = file_sha f\<rparr>])
               else patch_loop files patches)
      else patch_loop files patches)"

definition contents_url :: "string \<Rightarrow> string \<Rightarrow> string" where
  "contents_url owner repo = base_url @ ''/repos/'' @ owner @ ''/'' @ repo @ ''/contents''"

definition get_patch_files :: "http \<Rightarrow> string \<Rightarrow> string \<Rightarrow> patch list" where
  "get_patch_files h owner repo =
     (case get_contents h (contents_url owner repo) of
        Inl err \<Rightarrow> []
      | Inr files \<Rightarrow> (case patch_loop files [] of Inl err \<Rightarrow> [] | Inr patches \<Rightarrow> patches))"

text \<open>
  For stating the properties of \<open>get_patch_files\<close>: the test of the loop on one
  entry, and the patch made of an entry.
\<close>

definition is_patch_file :: "file_entry \<Rightarrow> bool" where
  "is_patch_file f =
     (endswith (file_name f) ''.lua''
      \<and> (case file_name f of [] \<Rightarrow> False | c # cs \<Rightarrow> isdigit c))"

definition to_patch :: "file_entry \<Rightarrow> patch" where
  "to_patch f = \<lparr>patch_name = file_name f, patch_download_url = file_download_url f,
     patch_sha = file_sha f\<rparr>"

section \<open>workers/download\_worker.py\<close>

text \<open>
  The signals of the worker. The text of \<open>finished\<close> is either fixed or
  \<open>f"Error: {str(e)}"\<close> for the exception \<open>e\<close> that was caught.
\<close>

datatype message = Text string | ErrorText error

datatype signal = Progress string | Finished bool message

text \<open>\<open>str(n)\<close> for a length.\<close>

fun str_of_nat :: "nat \<Rightarrow> string" where
  "str_of_nat n =
     (if n < 10 then [''0123456789'' ! n]
      else str_of_nat (n div 10) @ [''0123456789'' ! (n mod 10)])"

declare str_of_nat.simps [simp del]

text \<open>
  The device's file system is a state of type \<open>'fs\<close>, changed by the operations the
  worker calls: \<open>mkdir(exist_ok=True)\<close> and writing a text file, each of which gives
  the new state and the exception it raised, if any (a failed write may have created
  the file). \<open>install_archive\<close> stands for lines 41 to 120 of \<open>run\<close> (saving and
  extracting the archive, searching the plugin directory, replacing the installed
  copy), together with the handler of line 140 for an exception raised there: it takes
  the archive and the repository name and gives the signals emitted and the new state.
\<close>

record 'fs device =
  mkdir_exist_ok :: "string \<Rightarrow> 'fs \<Rightarrow> error option \<times> 'fs"
  write_text :: "string \<Rightarrow> string \<Rightarrow> 'fs \<Rightarrow> error option \<times> 'fs"
  install_archive :: "bytes \<Rightarrow> string \<Rightarrow> 'fs \<Rightarrow> signal list \<times> 'fs"

record worker =
  item_data :: repo
  install_path :: string
  item_type :: string
  is_update :: bool

text \<open>
  The loop over the patches: an exception stops it, and the files written before stay.
\<close>

fun write_patches ::
  "http \<Rightarrow> 'fs device \<Rightarrow> string \<Rightarrow> patch list \<Rightarrow> 'fs \<Rightarrow> error option \<times> 'fs" where
  "write_patches h d patch_dir [] fs = (None, fs)"
| "write_patches h d patch_dir (p # ps) fs =
     (case patch_download_url p of
        None \<Rightarrow> (Some RequestException, fs)
      | Some url \<Rightarrow>
         (case get_text h url of
            Inl err \<Rightarrow> (Some err, fs)
          | Inr txt \<Rightarrow>
             (case write_text d (patch_dir @ ''/'' @ patch_name p) txt fs of
                (Some err, fs') \<Rightarrow> (Some err, fs')
              | (None, fs') \<Rightarrow> write_patches h d patch_dir ps fs')))"

text \<open>
  \<open>DownloadWorker.run\<close>: the signals emitted, in order, and the file system afterwards.
\<close>

definition run :: "http \<Rightarrow> 'fs device \<Rightarrow> worker \<Rightarrow> 'fs \<Rightarrow> signal list \<times> 'fs" where
  "run h d w fs =
     (let owner = owner_login (item_data w);
          repo = name (item_data w)
      in if item_type w = ''plugin''
         then
           (case snd (download_repository_zip h owner repo ''main'') of
              None \<Rightarrow>
                ([Progress (''Downloading '' @ repo @ ''...''),
                  Finished False (Text ''Failed to download repository'')], fs)
            | Some zip_content \<Rightarrow>
                if zip_content = []
                then ([Progress (''Downloading '' @ repo @ ''...''),
                       Finished False (Text ''Failed to download repository'')], fs)
                else (case install_archive d zip_content repo fs of
                        (signals, fs') \<Rightarrow>
                          (Progress (''Downloading '' @ repo @ ''...'') # signals, fs')))
         else if item_type w = ''patch''
         then
           (let patches = get_patch_files h owner repo
            in if patches \<noteq> []
               then
                 (case mkdir_exist_ok d (install_path w @ ''/patches'') fs of
                    (Some err, fs1) \<Rightarrow>
                      ([Progress ''Downloading patches...'', Finished False (ErrorText err)], fs1)
                  | (None, fs1) \<Rightarrow>
                     (case write_patches h d (install_path w @ ''/patches'') patches fs1 of
                        (Some err, fs2) \<Rightarrow>
                          ([Progress ''Downloading patches...'',
                            Finished False (ErrorText err)], fs2)
                      | (None, fs2) \<Rightarrow>
                          ([Progress ''Downloading patches...'',
                            Finished True
                              (Text (str_of_nat (length patches) @ '' patch(es) installed!''))],
                           fs2)))
               else ([Finished False (Text ''No patches found'')], fs))
         else ([], fs))"

section \<open>Example inputs\<close>

text \<open>
  A catalog entry, a release with no asset, a commit listing and an environment: the
  plugin was installed on 2024-01-01, the clock reads 2024-06-12T12:00:00 (the device
  keeps UTC), and \<open>fromisoformat\<close> is given at the two strings the examples parse.
\<close>

definition ex_repo :: repo where
  "ex_repo = \<lparr>repo_id = 1, name = ''demo.koplugin'', owner_login = ''alice'',
     description = None, topics = [], updated_at = ''2024-06-10T12:00:00Z'',
     repo_type = Some ''plugin''\<rparr>"

definition ex_release :: "string \<Rightarrow> string \<Rightarrow> release" where
  "ex_release tag url = \<lparr>tag_name = tag, release_name = tag,
     published_at = ''2024-06-01T00:00:00Z'', body = ''notes'', html_url = url,
     assets = []\<rparr>"

definition ex_commits :: commits where
  "ex_commits = \<lparr>latest_commit = ''0123456789abcdef0123456789abcdef01234567'',
     latest_commit_date = ''2024-06-10T12:00:00Z'', commit_count = 1\<rparr>"

definition ex_path :: string where
  "ex_path = ''/mnt/onboard/.adds/koreader/plugins/demo.koplugin''"

definition ex_fromisoformat :: "string \<Rightarrow> error + datetime" where
  "ex_fromisoformat s =
     (if s = ''2024-06-10T12:00:00+00:00'' then Inr (Aware 1718020800000000)
      else if s = ''2024-06-10T12:00:00'' then Inr (Naive 1718020800000000)
      else Inl ValueError)"

definition ex_env :: "release option \<Rightarrow> commits option \<Rightarrow> env" where
  "ex_env rel cs = \<lparr>get_latest_release = (\<lambda>owner repo. rel),
     get_repository_commits = (\<lambda>owner repo. cs),
     meta_mtime = (\<lambda>p. if p = ex_path then Inr (Some 1704067200000000) else Inr None),
     now_local = 1718193600000000, now_utc = 1718193600000000,
     fromisoformat = ex_fromisoformat\<rparr>"

definition ex_installed :: "string \<Rightarrow> installed_info" where
  "ex_installed v = \<lparr>version = Some v, path = Some ex_path\<rparr>"

text \<open>
  Search results: two queries are answered and share the repository with id 1, a third
  query fails.
\<close>

definition ex_item :: "int \<Rightarrow> string \<Rightarrow> string list \<Rightarrow> repo" where
  "ex_item i n ts = \<lparr>repo_id = i, name = n, owner_login = ''alice'', description = None,
     topics = ts, updated_at = ''2024-06-10T12:00:00Z'', repo_type = None\<rparr>"

definition ex_search :: "string \<Rightarrow> error + repo list" where
  "ex_search q =
     (if q = ''topic:koreader-plugin''
      then Inr [ex_item 1 ''Demo.koplugin'' [''koreader-plugin''], ex_item 2 ''sync-plugin'' []]
      else if q = ''koplugin in:name''
      then Inr [ex_item 1 ''Demo.koplugin'' [], ex_item 3 ''reader-patches'' []]
      else Inl RequestException)"

text \<open>
  Downloads: a network where every request fails, a network with one release that
  carries an archive, a network whose repository holds one file named with a
  superscript two, and a device whose file system is the list of the files written.
\<close>

definition ex_http_down :: http where
  "ex_http_down = \<lparr>get_releases = (\<lambda>url. Inl RequestException),
     get_content = (\<lambda>url. Inl RequestException),
     get_contents = (\<lambda>url. Inl RequestException),
     get_text = (\<lambda>url. Inl RequestException)\<rparr>"

definition ex_http_release :: http where
  "ex_http_release = \<lparr>
     get_releases = (\<lambda>url. Inr [\<lparr>tag_name = ''v2.0.0'', release_name = ''v2.0.0'',
        published_at = ''2024-06-01T00:00:00Z'', body = ''notes'',
        html_url = ''https://github.com/alice/demo.koplugin/releases/tag/v2.0.0'',
        assets = [\<lparr>asset_name = Some ''notes.txt'',
                    browser_download_url = Some ''https://example.org/notes.txt''\<rparr>,
                  \<lparr>asset_name = Some ''demo.zip'',
                    browser_download_url = Some ''https://example.org/demo.zip''\<rparr>]\<rparr>]),
     get_content = (\<lambda>url. if url = ''https://example.org/demo.zip'' then Inr ''PK''
                        else Inl RequestException),
     get_contents = (\<lambda>url. Inl RequestException),
     get_text = (\<lambda>url. Inl RequestException)\<rparr>"

definition ex_superscript_name :: string where
  "ex_superscript_name = CHR 0xB2 # ''x.lua''"

definition ex_http_patches :: "string list \<Rightarrow> http" where
  "ex_http_patches names = \<lparr>get_releases = (\<lambda>url. Inl RequestException),
     get_content = (\<lambda>url. Inl RequestException),
     get_contents = (\<lambda>url. Inr (map (\<lambda>n. \<lparr>file_name = n,
        file_download_url = Some (''https://example.org/'' @ n), file_sha = ''0a''\<rparr>) names)),
     get_text = (\<lambda>url. Inr ''return {}'')\<rparr>"

definition ex_device :: "(string \<times> string) list device" where
  "ex_device = \<lparr>mkdir_exist_ok = (\<lambda>p fs. (None, fs)),
     write_text = (\<lambda>p txt fs. (None, fs @ [(p, txt)])),
     install_archive = (\<lambda>zip_content repo fs.
        ([Finished True (Text (repo @ '' installed successfully!''))], fs))\<rparr>"

definition ex_worker :: "string \<Rightarrow> worker" where
  "ex_worker t = \<lparr>item_data = ex_repo, install_path = ''/mnt/onboard/.adds/koreader'',
     item_type = t, is_update = False\<rparr>"

section \<open>Version parsing and comparison\<close>



















lemmas version_defs = parse_version_def lstrip_def is_decimal_def int_of_digits_def
  digits_value_def pad_version.simps slice_to_def is_newer_version_def















section \<open>The update resolver\<close>

lemmas update_defs = check_plugin_update_def strategy_release_def strategy_commit_def
  strategy_repository_def commit_body_def repository_body_def get_release_download_url_def
  index_from_end_def replace_def days_def no_update_def

lemmas ex_defs = ex_env_def ex_release_def ex_commits_def ex_installed_def ex_repo_def
  ex_path_def ex_fromisoformat_def

lemma strategy_release_newer:
  assumes "get_latest_release e (owner_login p) (name p) = Some rel" "tag_name rel \<noteq> []"
    "is_newer_version (lstrip ''v'' (case version i of None \<Rightarrow> [] | Some v \<Rightarrow> v))
                      (lstrip ''v'' (tag_name rel)) = Inr True"
  shows "strategy_release e i p =
     ([GetLatestRelease (owner_login p) (name p)],
      case get_release_download_url rel of
        Inl err \<Rightarrow> Raise err
      | Inr url \<Rightarrow> Return \<lparr>has_update = True, latest_version = Some (tag_name rel),
                             update_type = Some ''release'', download_url = url,
                             release_notes = Some (body rel),
                             info_published_at = Some (published_at rel)\<rparr>)"
  using assms by (simp add: strategy_release_def Let_def split: sum.splits)

lemma strategy_release_not_newer:
  assumes "get_latest_release e (owner_login p) (name p) = Some rel"
    "is_newer_version (lstrip ''v'' (case version i of None \<Rightarrow> [] | Some v \<Rightarrow> v))
                      (lstrip ''v'' (tag_name rel)) = Inr False"
  shows "strategy_release e i p = ([GetLatestRelease (owner_login p) (name p)], Fallthrough)"
  using assms by (simp add: strategy_release_def Let_def)

lemma strategy_release_none:
  "strategy_release (e\<lparr>get_latest_release := \<lambda>owner repo. None\<rparr>) i p =
     ([GetLatestRelease (owner_login p) (name p)], Fallthrough)"
  by (simp add: strategy_release_def Let_def)

lemma commit_body_indep:
  "commit_body (e\<lparr>get_latest_release := f\<rparr>) pth owner repo = commit_body e pth owner repo"
  by (simp add: commit_body_def Let_def split: sum.splits option.splits bool.splits)

lemma strategy_commit_indep:
  "strategy_commit (e\<lparr>get_latest_release := f\<rparr>) i p = strategy_commit e i p"
  by (simp add: strategy_commit_def commit_body_indep Let_def cong: if_cong)

lemma datetime_now_indep:
  "datetime_now (e\<lparr>get_latest_release := f\<rparr>) d = datetime_now e d"
  by (cases d) simp_all

lemma repository_body_indep:
  "repository_body (e\<lparr>get_latest_release := f\<rparr>) i p = repository_body e i p"
  by (simp add: repository_body_def Let_def datetime_now_indep
      split: sum.splits option.splits bool.splits)

lemma strategy_repository_indep:
  "strategy_repository (e\<lparr>get_latest_release := f\<rparr>) i p = strategy_repository e i p"
  by (simp add: strategy_repository_def repository_body_indep)

text \<open>
  C1, as the code has it: tier precedence. The candidate has a latest release with a
  non-empty tag, and the installed version and the tag can both be parsed. If the
  release's version triple is strictly greater than the installed one, the release
  decides alone: the only call made outside is the one for the latest release, so
  Tier 2 and Tier 3 are not consulted, and a result that is returned is the release
  update. If the release's triple is not strictly greater, the resolver does not stop:
  it goes on exactly as if there were no release, and Tier 2 and Tier 3 decide.
\<close>

theorem release_tier_precedence:
  assumes "get_latest_release e (owner_login p) (name p) = Some rel" and "tag_name rel \<noteq> []"
  shows "(is_newer_version (lstrip ''v'' (case version i of None \<Rightarrow> [] | Some v \<Rightarrow> v))
                           (lstrip ''v'' (tag_name rel)) = Inr True \<longrightarrow>
            fst (check_plugin_update e i p) = [GetLatestRelease (owner_login p) (name p)]
          \<and> (\<forall>u. snd (check_plugin_update e i p) = Inr u \<longrightarrow>
                 has_update u \<and> update_type u = Some ''release''
               \<and> latest_version u = Some (tag_name rel)))
       \<and> (is_newer_version (lstrip ''v'' (case version i of None \<Rightarrow> [] | Some v \<Rightarrow> v))
                           (lstrip ''v'' (tag_name rel)) = Inr False \<longrightarrow>
            check_plugin_update e i p =
            check_plugin_update (e\<lparr>get_latest_release := \<lambda>owner repo. None\<rparr>) i p)"
proof -
  have newer: "fst (check_plugin_update e i p) = [GetLatestRelease (owner_login p) (name p)]
          \<and> (\<forall>u. snd (check_plugin_update e i p) = Inr u \<longrightarrow>
                 has_update u \<and> update_type u = Some ''release''
               \<and> latest_version u = Some (tag_name rel))"
    if n: "is_newer_version (lstrip ''v'' (case version i of None \<Rightarrow> [] | Some v \<Rightarrow> v))
                           (lstrip ''v'' (tag_name rel)) = Inr True"
    by (auto simp add: check_plugin_update_def strategy_release_newer[OF assms n]
        split: sum.splits)
  have not_newer: "check_plugin_update e i p =
            check_plugin_update (e\<lparr>get_latest_release := \<lambda>owner repo. None\<rparr>) i p"
    if n: "is_newer_version (lstrip ''v'' (case version i of None \<Rightarrow> [] | Some v \<Rightarrow> v))
                           (lstrip ''v'' (tag_name rel)) = Inr False"
    by (simp add: check_plugin_update_def strategy_release_not_newer[OF assms(1) n]
        strategy_release_none strategy_commit_indep strategy_repository_indep)
  show ?thesis using newer not_newer by blast
qed

theorem release_tier_precedence_witness:
  "get_latest_release
      (ex_env (Some (ex_release ''v2.0.0'' ''https://github.com/alice/demo.koplugin/releases/tag/v2.0.0''))
         (Some ex_commits)) (owner_login ex_repo) (name ex_repo)
     = Some (ex_release ''v2.0.0'' ''https://github.com/alice/demo.koplugin/releases/tag/v2.0.0'')
   \<and> is_newer_version (lstrip ''v'' ''1.2.0'') (lstrip ''v'' ''v2.0.0'') = Inr True
   \<and> fst (check_plugin_update
        (ex_env (Some (ex_release ''v2.0.0'' ''https://github.com/alice/demo.koplugin/releases/tag/v2.0.0''))
           (Some ex_commits)) (ex_installed ''1.2.0'') ex_repo)
       = [GetLatestRelease ''alice'' ''demo.koplugin'']
   \<and> snd (check_plugin_update
        (ex_env (Some (ex_release ''v2.0.0'' ''https://github.com/alice/demo.koplugin/releases/tag/v2.0.0''))
           (Some ex_commits)) (ex_installed ''1.2.0'') ex_repo)
       = Inr \<lparr>has_update = True, latest_version = Some ''v2.0.0'',
               update_type = Some ''release'',
               download_url = Some ''https://github.com/tag/v2.0.0/archive/v2.0.0.zip'',
               release_notes = Some ''notes'',
               info_published_at = Some ''2024-06-01T00:00:00Z''\<rparr>
   \<and> is_newer_version (lstrip ''v'' ''1.2.0'') (lstrip ''v'' ''v1.2.0'') = Inr False
   \<and> check_plugin_update (ex_env (Some (ex_release ''v1.2.0'' [])) (Some ex_commits))
        (ex_installed ''1.2.0'') ex_repo
       = check_plugin_update (ex_env None (Some ex_commits)) (ex_installed ''1.2.0'') ex_repo"
  using release_tier_precedence
      [of "ex_env (Some (ex_release ''v2.0.0'' ''https://github.com/alice/demo.koplugin/releases/tag/v2.0.0'')) (Some ex_commits)"
          ex_repo
          "ex_release ''v2.0.0'' ''https://github.com/alice/demo.koplugin/releases/tag/v2.0.0''"
          "ex_installed ''1.2.0''"]
    release_tier_precedence
      [of "ex_env (Some (ex_release ''v1.2.0'' [])) (Some ex_commits)" ex_repo
          "ex_release ''v1.2.0'' []" "ex_installed ''1.2.0''"]
  by (simp add: update_defs version_defs ex_defs)

text \<open>
  C1, as the specification states it, fails. An installed plugin whose version could
  not be read (\<open>Unknown\<close>) meets a release tagged \<open>v0.0.0\<close>, which is not strictly
  greater: the resolver goes on, asks for the metadata file, the commits and the clock,
  and Tier 3 declares an update. An installed \<open>1.2.0\<close> that meets the release
  \<open>v1.2.0\<close> gets no update, but only after Tier 2 was consulted.
\<close>

theorem release_tier_precedence_counterexample:
  "get_latest_release (ex_env (Some (ex_release ''v0.0.0'' [])) (Some ex_commits))
        (owner_login ex_repo) (name ex_repo) = Some (ex_release ''v0.0.0'' [])
   \<and> tag_name (ex_release ''v0.0.0'' []) = ''v0.0.0''
   \<and> parse_version (lstrip ''v'' ''v0.0.0'') = Inr [0, 0, 0]
   \<and> is_newer_version (lstrip ''v'' ''Unknown'') (lstrip ''v'' ''v0.0.0'') = Inr False
   \<and> check_plugin_update (ex_env (Some (ex_release ''v0.0.0'' [])) (Some ex_commits))
        (ex_installed ''Unknown'') ex_repo
       = ([GetLatestRelease ''alice'' ''demo.koplugin'', MetaFileStat ex_path,
           GetRepositoryCommits ''alice'' ''demo.koplugin'', DatetimeNow],
          Inr \<lparr>has_update = True, latest_version = Some ''Recent Update'',
                 update_type = Some ''repository'', download_url = None,
                 release_notes = None,
                 info_published_at = Some ''2024-06-10T12:00:00Z''\<rparr>)
   \<and> is_newer_version (lstrip ''v'' ''1.2.0'') (lstrip ''v'' ''v1.2.0'') = Inr False
   \<and> check_plugin_update (ex_env (Some (ex_release ''v1.2.0'' [])) (Some ex_commits))
        (ex_installed ''1.2.0'') ex_repo
       = ([GetLatestRelease ''alice'' ''demo.koplugin'', MetaFileStat ex_path,
           GetRepositoryCommits ''alice'' ''demo.koplugin''],
          Inr no_update)"
  by (simp add: update_defs version_defs ex_defs)

lemma commit_body_aware:
  assumes "meta_mtime e pth = Inr (Some m)" "get_repository_commits e owner repo = Some cs"
    "fromisoformat e (replace ''Z'' ''+00:00'' (latest_commit_date cs)) = Inr (Aware t)"
  shows "commit_body e pth owner repo =
           ([MetaFileStat pth, GetRepositoryCommits owner repo], Inl TypeError)"
  using assms by (simp add: commit_body_def)

lemma commit_body_naive:
  assumes "meta_mtime e pth = Inr (Some m)" "get_repository_commits e owner repo = Some cs"
    "fromisoformat e (replace ''Z'' ''+00:00'' (latest_commit_date cs)) = Inr (Naive t)"
  shows "snd (commit_body e pth owner repo) =
           Inr (if t > m + days 1
                then Some \<lparr>has_update = True,
                           latest_version = Some (slice_to 8 (latest_commit cs)),
                           update_type = Some ''commit'', download_url = None,
                           release_notes = None,
                           info_published_at = Some (latest_commit_date cs)\<rparr>
                else None)"
  using assms by (simp add: commit_body_def)

lemma strategy_commit_swallows: "snd (strategy_commit e i p) \<noteq> Raise err"
  by (simp add: strategy_commit_def Let_def split: prod.splits sum.splits option.splits)

lemma strategy_commit_type:
  "strategy_commit e i p = (log, Return u) \<Longrightarrow> update_type u = Some ''commit''"
  by (auto simp add: strategy_commit_def commit_body_def Let_def
      split: prod.splits sum.splits option.splits if_splits bool.splits)

lemma strategy_release_type:
  "strategy_release e i p = (log, Return u) \<Longrightarrow> update_type u = Some ''release''"
  by (auto simp add: strategy_release_def Let_def
      split: prod.splits sum.splits option.splits if_splits bool.splits)

lemma strategy_repository_return:
  assumes "strategy_repository e i p = (log, Return u)"
  shows "(case version i of None \<Rightarrow> ''Unknown'' | Some v \<Rightarrow> v) = ''Unknown''
       \<and> has_update u \<and> latest_version u = Some ''Recent Update''
       \<and> update_type u = Some ''repository''
       \<and> (\<exists>d. fromisoformat e (replace ''Z'' ''+00:00'' (updated_at p)) = Inr d
              \<and> dt_greater d (dt_plus (datetime_now e d) (- days 7)) = Inr True)"
  using assms
  by (auto simp add: strategy_repository_def repository_body_def Let_def
      split: prod.splits sum.splits option.splits if_splits bool.splits)

lemma check_plugin_update_repository:
  assumes "snd (check_plugin_update e i p) = Inr u" "update_type u = Some ''repository''"
  shows "\<exists>log. strategy_repository e i p = (log, Return u)"
proof -
  obtain l1 o1 where s1: "strategy_release e i p = (l1, o1)" by (cases "strategy_release e i p")
  obtain l2 o2 where s2: "strategy_commit e i p = (l2, o2)" by (cases "strategy_commit e i p")
  obtain l3 o3 where s3: "strategy_repository e i p = (l3, o3)" by (cases "strategy_repository e i p")
  show ?thesis
    using assms s1 s2 s3 strategy_release_type[of e i p] strategy_commit_type[of e i p]
    by (cases o1; cases o2; cases o3) (auto simp: check_plugin_update_def no_update_def)
qed

text \<open>
  C2: the commit tier at a date as the platform sends it. The plugin was installed on
  2024-01-01 and the newest commit is of \<open>2024-06-10T12:00:00Z\<close>, months later than
  the installation plus one day. The commit date is parsed with a time zone, the
  installation time has none, the comparison raises \<open>TypeError\<close>, the tier swallows
  it, and no update is declared.
\<close>

theorem commit_tier_timezone_failure:
  "meta_mtime (ex_env None (Some ex_commits)) ex_path = Inr (Some 1704067200000000)
   \<and> fromisoformat (ex_env None (Some ex_commits))
         (replace ''Z'' ''+00:00'' (latest_commit_date ex_commits))
       = Inr (Aware 1718020800000000)
   \<and> 1718020800000000 > 1704067200000000 + days 1
   \<and> commit_body (ex_env None (Some ex_commits)) ex_path ''alice'' ''demo.koplugin''
       = ([MetaFileStat ex_path, GetRepositoryCommits ''alice'' ''demo.koplugin''],
          Inl TypeError)
   \<and> check_plugin_update (ex_env None (Some ex_commits)) (ex_installed ''1.2.0'') ex_repo
       = ([GetLatestRelease ''alice'' ''demo.koplugin'', MetaFileStat ex_path,
           GetRepositoryCommits ''alice'' ''demo.koplugin''],
          Inr no_update)"
  by (simp add: update_defs ex_defs)

text \<open>
  C3: an exception leaves \<open>check_for_updates\<close>. The installed \<open>1.2.0\<close> meets the
  release \<open>v2.0.0\<close>, which has no asset ending in \<open>.zip\<close> and an empty \<open>html_url\<close>:
  \<open>''.split('/')[-2]\<close> raises \<open>IndexError\<close> outside every \<open>try\<close>.
\<close>

theorem check_for_updates_raises:
  "check_for_updates (ex_env (Some (ex_release ''v2.0.0'' [])) None)
     [(''demo.koplugin'', ex_installed ''1.2.0'')] [ex_repo] = Inl IndexError"
  by (simp add: check_for_updates_def find_available_plugin_def update_defs version_defs
      ex_defs)

lemma scenario_b:
  assumes "version i = Some ''Unknown''"
    "get_latest_release e (owner_login p) (name p) = None"
    "get_repository_commits e (owner_login p) (name p) = None"
    "updated_at p \<noteq> []"
    "fromisoformat e (replace ''Z'' ''+00:00'' (updated_at p)) = Inr d"
    "d = dt_plus (datetime_now e d) (- days 2)"
  shows "snd (check_plugin_update e i p) =
          Inr \<lparr>has_update = True, latest_version = Some ''Recent Update'',
                update_type = Some ''repository'', download_url = None,
                release_notes = None, info_published_at = Some (updated_at p)\<rparr>"
proof -
  have s1: "strategy_release e i p = ([GetLatestRelease (owner_login p) (name p)], Fallthrough)"
    using assms(2) by (simp add: strategy_release_def)
  have s2: "snd (strategy_commit e i p) = Fallthrough"
    using assms(3)
    by (simp add: strategy_commit_def commit_body_def Let_def split: sum.splits option.splits)
  have gt: "dt_greater d (dt_plus (datetime_now e d) (- days 7)) = Inr True"
    using assms(6) by (cases d) (simp_all add: days_def)
  have s3: "snd (strategy_repository e i p) = Return \<lparr>has_update = True, latest_version = Some ''Recent Update'',
                update_type = Some ''repository'', download_url = None,
                release_notes = None, info_published_at = Some (updated_at p)\<rparr>"
    using assms(1,4,5) gt by (simp add: strategy_repository_def repository_body_def)
  show ?thesis
    using s1 s2 s3
    by (cases "strategy_commit e i p"; cases "strategy_repository e i p")
       (simp add: check_plugin_update_def)
qed

text \<open>
  C8: the repository-recency tier. An update of type \<open>repository\<close> is declared only
  when the installed version is \<open>Unknown\<close> and the candidate's \<open>updated_at\<close> is later
  than now minus 7 days; its latest-version label is the fixed text
  \<open>Recent Update\<close>. With version \<open>Unknown\<close>, no release, no commits and an
  \<open>updated_at\<close> of two days ago, the result is that update.
\<close>

theorem repository_tier_fallback:
  "(snd (check_plugin_update e i p) = Inr u \<and> update_type u = Some ''repository'' \<longrightarrow>
       (case version i of None \<Rightarrow> ''Unknown'' | Some v \<Rightarrow> v) = ''Unknown''
     \<and> has_update u \<and> latest_version u = Some ''Recent Update''
     \<and> (\<exists>d. fromisoformat e (replace ''Z'' ''+00:00'' (updated_at p)) = Inr d
            \<and> dt_greater d (dt_plus (datetime_now e d) (- days 7)) = Inr True))
   \<and> (version i = Some ''Unknown''
      \<and> get_latest_release e (owner_login p) (name p) = None
      \<and> get_repository_commits e (owner_login p) (name p) = None
      \<and> updated_at p \<noteq> []
      \<and> fromisoformat e (replace ''Z'' ''+00:00'' (updated_at p)) = Inr d2
      \<and> d2 = dt_plus (datetime_now e d2) (- days 2) \<longrightarrow>
      snd (check_plugin_update e i p) =
        Inr \<lparr>has_update = True, latest_version = Some ''Recent Update'',
              update_type = Some ''repository'', download_url = None,
              release_notes = None, info_published_at = Some (updated_at p)\<rparr>)"
proof -
  have only_when:
    "(case version i of None \<Rightarrow> ''Unknown'' | Some v \<Rightarrow> v) = ''Unknown''
     \<and> has_update u \<and> latest_version u = Some ''Recent Update''
     \<and> (\<exists>d. fromisoformat e (replace ''Z'' ''+00:00'' (updated_at p)) = Inr d
            \<and> dt_greater d (dt_plus (datetime_now e d) (- days 7)) = Inr True)"
    if h: "snd (check_plugin_update e i p) = Inr u \<and> update_type u = Some ''repository''"
  proof -
    obtain log where "strategy_repository e i p = (log, Return u)"
      using h check_plugin_update_repository [of e i p u] by blast
    then show ?thesis
      using strategy_repository_return [of e i p log u] by simp
  qed
  have scenario:
    "snd (check_plugin_update e i p) =
        Inr \<lparr>has_update = True, latest_version = Some ''Recent Update'',
              update_type = Some ''repository'', download_url = None,
              release_notes = None, info_published_at = Some (updated_at p)\<rparr>"
    if "version i = Some ''Unknown''
      \<and> get_latest_release e (owner_login p) (name p) = None
      \<and> get_repository_commits e (owner_login p) (name p) = None
      \<and> updated_at p \<noteq> []
      \<and> fromisoformat e (replace ''Z'' ''+00:00'' (updated_at p)) = Inr d2
      \<and> d2 = dt_plus (datetime_now e d2) (- days 2)"
    using that scenario_b [of i e p d2] by simp
  show ?thesis
    using only_when scenario by blast
qed

theorem repository_tier_fallback_witness:
  "version (ex_installed ''Unknown'') = Some ''Unknown''
   \<and> get_latest_release (ex_env None None) (owner_login ex_repo) (name ex_repo) = None
   \<and> get_repository_commits (ex_env None None) (owner_login ex_repo) (name ex_repo) = None
   \<and> updated_at ex_repo = ''2024-06-10T12:00:00Z''
   \<and> fromisoformat (ex_env None None) (replace ''Z'' ''+00:00'' (updated_at ex_repo))
       = Inr (Aware 1718020800000000)
   \<and> Aware 1718020800000000
       = dt_plus (datetime_now (ex_env None None) (Aware 1718020800000000)) (- days 2)
   \<and> snd (check_plugin_update (ex_env None None) (ex_installed ''Unknown'') ex_repo)
       = Inr \<lparr>has_update = True, latest_version = Some ''Recent Update'',
               update_type = Some ''repository'', download_url = None,
               release_notes = None, info_published_at = Some ''2024-06-10T12:00:00Z''\<rparr>
   \<and> dt_greater (Aware 1718020800000000)
         (dt_plus (datetime_now (ex_env None None) (Aware 1718020800000000)) (- days 7))
       = Inr True"
  using repository_tier_fallback
      [of "ex_env None None" "ex_installed ''Unknown''" ex_repo
          "\<lparr>has_update = True, latest_version = Some ''Recent Update'',
            update_type = Some ''repository'', download_url = None,
            release_notes = None, info_published_at = Some ''2024-06-10T12:00:00Z''\<rparr>"
          "Aware 1718020800000000"]
  by (simp add: update_defs ex_defs)

section \<open>Search, classification and deduplication\<close>

lemma bit5_not_upper:
  "\<not> ((65 \<le> (of_char (Char b0 b1 b2 b3 b4 True b6 b7) :: nat)
        \<and> (of_char (Char b0 b1 b2 b3 b4 True b6 b7) :: nat) \<le> 90)
      \<or> (192 \<le> (of_char (Char b0 b1 b2 b3 b4 True b6 b7) :: nat)
        \<and> (of_char (Char b0 b1 b2 b3 b4 True b6 b7) :: nat) \<le> 222
        \<and> (of_char (Char b0 b1 b2 b3 b4 True b6 b7) :: nat) \<noteq> 215))"
  by (cases b6; cases b7) (simp_all add: of_bool_def)

lemma lower_char_idem: "lower_char (lower_char c) = lower_char c"
proof (cases c)
  case (Char b0 b1 b2 b3 b4 b5 b6 b7)
  show ?thesis
  proof (cases "(65 \<le> (of_char c :: nat) \<and> (of_char c :: nat) \<le> 90)
      \<or> (192 \<le> (of_char c :: nat) \<and> (of_char c :: nat) \<le> 222 \<and> (of_char c :: nat) \<noteq> 215)")
    case True
    then have l: "lower_char c = Char b0 b1 b2 b3 b4 True b6 b7"
      unfolding lower_char_def Let_def Char by (simp only: if_True char.case)
    show ?thesis
      unfolding l unfolding lower_char_def Let_def
      using bit5_not_upper[of b0 b1 b2 b3 b4 b6 b7] by (simp only: if_False)
  next
    case False
    then have l: "lower_char c = c"
      unfolding lower_char_def Let_def by (simp only: if_False)
    show ?thesis by (simp only: l)
  qed
qed

lemma lower_idem: "lower (lower s) = lower s"
  by (simp add: lower_def lower_char_idem)

lemma startswith_append: "startswith s (a @ b) \<Longrightarrow> startswith s a"
  by (induction s a rule: startswith.induct) simp_all

lemma contains_append: "contains s (a @ b) \<Longrightarrow> contains s a"
proof (induction s)
  case Nil
  then show ?case by simp
next
  case (Cons c cs)
  then show ?case using startswith_append[of "c # cs" a b] by auto
qed

lemma koreader_patches: "contains s ''koreader.patches'' \<Longrightarrow> contains s ''koreader''"
  using contains_append[of s "''koreader''" "''.patches''"] by simp

lemma fast_path_iff: "is_fast_path_valid_plugin r \<longleftrightarrow> cheap_filter_spec r"
  using koreader_patches[of "lower (name r)"]
  unfolding is_fast_path_valid_plugin_def cheap_filter_spec_def Let_def lower_idem list_ex_iff
  by auto

lemma fast_path_repo_type:
  "is_fast_path_valid_plugin (r\<lparr>repo_type := t\<rparr>) = is_fast_path_valid_plugin r"
  by (simp add: is_fast_path_valid_plugin_def)

lemma process_items_step:
  "process_items (r # rest) (seen, acc) =
     (if repo_id r \<in> seen then process_items rest (seen, acc)
      else process_items rest (insert (repo_id r) seen,
             acc @ (case admitted r of None \<Rightarrow> [] | Some r' \<Rightarrow> [r'])))"
  by (simp add: admitted_def Let_def)

lemma admitted_id: "admitted r = Some e \<Longrightarrow> repo_id e = repo_id r"
  by (auto simp: admitted_def Let_def split: if_splits)

lemma admitted_id_sym: "Some e = admitted r \<Longrightarrow> repo_id e = repo_id r"
  using admitted_id[of r e] by simp

lemma process_items_append:
  "process_items (xs @ ys) st = process_items ys (process_items xs st)"
proof (induction xs arbitrary: st)
  case Nil
  then show ?case by simp
next
  case (Cons r xs)
  obtain seen acc where st: "st = (seen, acc)" by (cases st)
  show ?case
    unfolding st append_Cons process_items_step using Cons.IH by simp
qed

lemma search_loop_stream:
  "search_loop search qs st = process_items (item_stream search qs) st"
proof (induction qs arbitrary: st)
  case Nil
  then show ?case by (simp add: item_stream_def)
next
  case (Cons q qs)
  show ?case
  proof (cases "search q")
    case (Inl err)
    then show ?thesis using Cons.IH[of st] by (simp add: item_stream_def)
  next
    case (Inr items)
    then show ?thesis
      using Cons.IH[of "process_items items st"]
      by (simp add: item_stream_def process_items_append)
  qed
qed

lemma find_append_some: "find P xs = Some r \<Longrightarrow> find P (xs @ ys) = Some r"
  by (induction xs) (auto split: if_splits)

lemma find_append_none: "find P xs = None \<Longrightarrow> find P (xs @ ys) = find P ys"
  by (induction xs) (auto split: if_splits)

lemma find_none_ids: "repo_id r \<notin> repo_id ` set xs \<Longrightarrow> find (\<lambda>x. repo_id x = repo_id r) xs = None"
  by (induction xs) auto

lemma process_items_inv:
  assumes "seen = repo_id ` set done"
    and "distinct (map repo_id acc)"
    and "repo_id ` set acc \<subseteq> seen"
    and "\<forall>e\<in>set acc. \<exists>r. find (\<lambda>x. repo_id x = repo_id e) done = Some r \<and> admitted r = Some e"
  shows "distinct (map repo_id (snd (process_items xs (seen, acc))))
       \<and> (\<forall>e\<in>set (snd (process_items xs (seen, acc))).
            \<exists>r. find (\<lambda>x. repo_id x = repo_id e) (done @ xs) = Some r \<and> admitted r = Some e)"
  using assms
proof (induction xs arbitrary: seen acc "done")
  case Nil
  then show ?case by simp
next
  case (Cons r xs)
  show ?case
  proof (cases "repo_id r \<in> seen")
    case True
    have 4: "\<forall>e\<in>set acc. \<exists>r'. find (\<lambda>x. repo_id x = repo_id e) (done @ [r]) = Some r'
                \<and> admitted r' = Some e"
      using Cons.prems(4) find_append_some by fastforce
    have 1: "seen = repo_id ` set (done @ [r])" using Cons.prems(1) True by auto
    show ?thesis
      using Cons.IH[OF 1 Cons.prems(2) Cons.prems(3) 4] True
      by (simp add: process_items_step del: process_items.simps)
  next
    case False
    let ?new = "case admitted r of None \<Rightarrow> [] | Some r' \<Rightarrow> [r']"
    have 1: "insert (repo_id r) seen = repo_id ` set (done @ [r])" using Cons.prems(1) by auto
    have ids_new: "\<forall>e\<in>set ?new. repo_id e = repo_id r"
      by (auto split: option.splits dest: admitted_id admitted_id_sym)
    have 2: "distinct (map repo_id (acc @ ?new))"
    proof (cases "admitted r")
      case None
      then show ?thesis using Cons.prems(2) by simp
    next
      case (Some e)
      have "repo_id e = repo_id r" using admitted_id[OF Some] .
      then have "repo_id e \<notin> repo_id ` set acc" using False Cons.prems(3) by auto
      then show ?thesis using Cons.prems(2) Some by simp
    qed
    have 3: "repo_id ` set (acc @ ?new) \<subseteq> insert (repo_id r) seen"
      using Cons.prems(3) by (auto split: option.splits dest: admitted_id admitted_id_sym)
    have fr: "find (\<lambda>x. repo_id x = repo_id r) (done @ [r]) = Some r"
      using False Cons.prems(1) find_none_ids[of r "done"] find_append_none by fastforce
    have 4: "\<forall>e\<in>set (acc @ ?new). \<exists>r'. find (\<lambda>x. repo_id x = repo_id e) (done @ [r]) = Some r'
                \<and> admitted r' = Some e"
    proof
      fix e assume e: "e \<in> set (acc @ ?new)"
      show "\<exists>r'. find (\<lambda>x. repo_id x = repo_id e) (done @ [r]) = Some r' \<and> admitted r' = Some e"
      proof (cases "e \<in> set acc")
        case True
        then show ?thesis using Cons.prems(4) find_append_some by fastforce
      next
        case False
        then have "admitted r = Some e" using e by (auto split: option.splits)
        then show ?thesis using fr admitted_id[of r e] by simp
      qed
    qed
    show ?thesis
      using Cons.IH[OF 1 2 3 4] False
      by (simp add: process_items_step del: process_items.simps)
  qed
qed

lemma process_items_mono: "set acc \<subseteq> set (snd (process_items xs (seen, acc)))"
proof (induction xs arbitrary: seen acc)
  case Nil
  then show ?case by simp
next
  case (Cons r xs)
  show ?case
  proof (cases "repo_id r \<in> seen")
    case True
    then show ?thesis using Cons.IH[of acc seen]
      by (simp add: process_items_step del: process_items.simps)
  next
    case False
    have "set acc \<subseteq> set (acc @ (case admitted r of None \<Rightarrow> [] | Some r' \<Rightarrow> [r']))" by simp
    also have "\<dots> \<subseteq> set (snd (process_items xs (insert (repo_id r) seen,
                          acc @ (case admitted r of None \<Rightarrow> [] | Some r' \<Rightarrow> [r']))))"
      by (rule Cons.IH)
    finally show ?thesis using False
      by (simp add: process_items_step del: process_items.simps)
  qed
qed

lemma process_items_complete:
  assumes "find (\<lambda>x. repo_id x = repo_id r) xs = Some r" "repo_id r \<notin> seen"
    "admitted r = Some e"
  shows "e \<in> set (snd (process_items xs (seen, acc)))"
  using assms
proof (induction xs arbitrary: seen acc)
  case Nil
  then show ?case by simp
next
  case (Cons x xs)
  show ?case
  proof (cases "repo_id x = repo_id r")
    case True
    then have xr: "x = r" using Cons.prems(1) by simp
    have "e \<in> set (acc @ (case admitted r of None \<Rightarrow> [] | Some r' \<Rightarrow> [r']))"
      using Cons.prems(3) by simp
    then have "e \<in> set (snd (process_items xs (insert (repo_id r) seen,
                          acc @ (case admitted r of None \<Rightarrow> [] | Some r' \<Rightarrow> [r']))))"
      using process_items_mono by blast
    then show ?thesis using xr Cons.prems(2)
      by (simp add: process_items_step del: process_items.simps)
  next
    case False
    then have f: "find (\<lambda>x. repo_id x = repo_id r) xs = Some r" using Cons.prems(1) by simp
    show ?thesis
    proof (cases "repo_id x \<in> seen")
      case True
      then show ?thesis using Cons.IH[OF f Cons.prems(2) Cons.prems(3), of acc]
        by (simp add: process_items_step del: process_items.simps)
    next
      case nseen: False
      have "repo_id r \<notin> insert (repo_id x) seen" using False Cons.prems(2) by auto
      then show ?thesis
        using Cons.IH[OF f _ Cons.prems(3),
            of "insert (repo_id x) seen" "acc @ (case admitted x of None \<Rightarrow> [] | Some r' \<Rightarrow> [r'])"]
          nseen
        by (simp add: process_items_step del: process_items.simps)
    qed
  qed
qed

lemma admitted_plugin:
  assumes "contains (lower (name r)) ''koplugin'' \<or> endswith (lower (name r)) ''plugin''
         \<or> endswith (lower (name r)) ''plugins''"
  shows "admitted r = (if cheap_filter_spec r then Some (r\<lparr>repo_type := Some ''plugin''\<rparr>) else None)"
  using assms fast_path_iff[of r] by (simp add: admitted_def Let_def fast_path_repo_type)

lemma search_admits_plugin:
  assumes first: "find (\<lambda>x. repo_id x = repo_id r)
                    (item_stream search (search_queries topic pats)) = Some r"
    and cls: "contains (lower (name r)) ''koplugin'' \<or> endswith (lower (name r)) ''plugin''
         \<or> endswith (lower (name r)) ''plugins''"
  shows "r\<lparr>repo_type := Some ''plugin''\<rparr> \<in> set (search_repositories search topic pats)
         \<longleftrightarrow> cheap_filter_spec r"
proof
  assume "cheap_filter_spec r"
  then have "admitted r = Some (r\<lparr>repo_type := Some ''plugin''\<rparr>)"
    using admitted_plugin[OF cls] by simp
  then show "r\<lparr>repo_type := Some ''plugin''\<rparr> \<in> set (search_repositories search topic pats)"
    using process_items_complete[OF first, of "{}" _ "[]"]
    by (simp add: search_repositories_def search_loop_stream)
next
  assume m: "r\<lparr>repo_type := Some ''plugin''\<rparr> \<in> set (search_repositories search topic pats)"
  have inv: "\<forall>e\<in>set (search_repositories search topic pats).
        \<exists>r'. find (\<lambda>x. repo_id x = repo_id e)
               (item_stream search (search_queries topic pats)) = Some r'
            \<and> admitted r' = Some e"
    using process_items_inv[of "{}" "[]" "[]" "item_stream search (search_queries topic pats)"]
    by (simp add: search_repositories_def search_loop_stream)
  obtain r' where "find (\<lambda>x. repo_id x = repo_id (r\<lparr>repo_type := Some ''plugin''\<rparr>))
               (item_stream search (search_queries topic pats)) = Some r'"
    and "admitted r' = Some (r\<lparr>repo_type := Some ''plugin''\<rparr>)"
    using inv m by blast
  then have "admitted r = Some (r\<lparr>repo_type := Some ''plugin''\<rparr>)"
    using first by simp
  then show "cheap_filter_spec r"
    using admitted_plugin[OF cls] by (simp split: if_splits)
qed

lemmas search_defs = search_repositories_def search_queries_def is_fast_path_valid_plugin_def
  cheap_filter_spec_def admitted_def item_stream_def lower_def lower_char_def endswith_def
  ex_search_def ex_item_def

text \<open>
  C6: the cheap acceptance filter. \<open>is_fast_path_valid_plugin\<close> holds exactly if the
  lower-cased name ends with \<open>.koplugin\<close>, contains \<open>koplugin\<close>, ends with \<open>.patch\<close> or
  contains \<open>koreader\<close>, or a topic is in the allow-set, or the lower-cased description
  contains \<open>koreader\<close>. A search result whose id was not seen and whose name classifies
  it as a plugin is appended to the catalog, typed \<open>plugin\<close>, exactly if the filter
  holds, and is dropped otherwise. So for a whole search: an item that is the first
  with its id among the items of the answered queries and is classified as a plugin is
  in the returned catalog exactly if the filter holds.
\<close>

theorem fast_path_filter:
  "(is_fast_path_valid_plugin r \<longleftrightarrow> cheap_filter_spec r)
   \<and> (repo_id r \<notin> seen
      \<and> (contains (lower (name r)) ''koplugin'' \<or> endswith (lower (name r)) ''plugin''
         \<or> endswith (lower (name r)) ''plugins'') \<longrightarrow>
        process_items [r] (seen, acc) =
          (insert (repo_id r) seen,
           if cheap_filter_spec r then acc @ [r\<lparr>repo_type := Some ''plugin''\<rparr>] else acc))
   \<and> (find (\<lambda>x. repo_id x = repo_id r) (item_stream search (search_queries topic pats))
        = Some r
      \<and> (contains (lower (name r)) ''koplugin'' \<or> endswith (lower (name r)) ''plugin''
         \<or> endswith (lower (name r)) ''plugins'') \<longrightarrow>
        (r\<lparr>repo_type := Some ''plugin''\<rparr> \<in> set (search_repositories search topic pats)
         \<longleftrightarrow> cheap_filter_spec r))"
proof -
  have "process_items [r] (seen, acc) =
          (insert (repo_id r) seen,
           if cheap_filter_spec r then acc @ [r\<lparr>repo_type := Some ''plugin''\<rparr>] else acc)"
    if "repo_id r \<notin> seen
      \<and> (contains (lower (name r)) ''koplugin'' \<or> endswith (lower (name r)) ''plugin''
         \<or> endswith (lower (name r)) ''plugins'')"
    using that fast_path_iff[of r]
    by (simp add: Let_def fast_path_repo_type)
  then show ?thesis
    using fast_path_iff[of r] search_admits_plugin[of r search topic pats] by blast
qed

theorem fast_path_filter_witness:
  "repo_id (ex_item 2 ''sync-plugin'' []) \<notin> {}
   \<and> endswith (lower (name (ex_item 2 ''sync-plugin'' []))) ''plugin''
   \<and> \<not> cheap_filter_spec (ex_item 2 ''sync-plugin'' [])
   \<and> process_items [ex_item 2 ''sync-plugin'' []] ({}, []) = ({2}, [])
   \<and> endswith (lower (name (ex_item 4 ''My-Plugin'' [''koreader'']))) ''plugin''
   \<and> cheap_filter_spec (ex_item 4 ''My-Plugin'' [''koreader''])
   \<and> process_items [ex_item 4 ''My-Plugin'' [''koreader'']] ({}, [])
       = ({4}, [(ex_item 4 ''My-Plugin'' [''koreader''])\<lparr>repo_type := Some ''plugin''\<rparr>])
   \<and> find (\<lambda>x. repo_id x = repo_id (ex_item 2 ''sync-plugin'' []))
        (item_stream ex_search (search_queries (Some ''koreader-plugin'') [''koplugin'']))
       = Some (ex_item 2 ''sync-plugin'' [])
   \<and> (ex_item 2 ''sync-plugin'' [])\<lparr>repo_type := Some ''plugin''\<rparr>
       \<notin> set (search_repositories ex_search (Some ''koreader-plugin'') [''koplugin''])"
  using fast_path_filter [of "ex_item 2 ''sync-plugin'' []" "{}" "[]" ex_search
      "Some ''koreader-plugin''" "[''koplugin'']"]
    fast_path_filter [of "ex_item 4 ''My-Plugin'' [''koreader'']" "{}" "[]" ex_search
      "Some ''koreader-plugin''" "[''koplugin'']"]
  by (simp add: search_defs)

text \<open>
  C7: catalog deduplication. Whatever the queries answer, the catalog that
  \<open>search_repositories\<close> returns holds each id at most once, and each of its entries is
  the first item with that id among the items of the answered queries, read in the
  order of the queries, with its type assigned.
\<close>

theorem search_deduplicates:
  "distinct (map repo_id (search_repositories search topic pats))
   \<and> (\<forall>e\<in>set (search_repositories search topic pats).
        \<exists>r. find (\<lambda>x. repo_id x = repo_id e)
               (item_stream search (search_queries topic pats)) = Some r
            \<and> admitted r = Some e)"
  using process_items_inv[of "{}" "[]" "[]" "item_stream search (search_queries topic pats)"]
  by (simp add: search_repositories_def search_loop_stream)

theorem search_deduplicates_witness:
  "search_repositories ex_search (Some ''koreader-plugin'') [''koplugin'', ''broken'']
     = [(ex_item 1 ''Demo.koplugin'' [''koreader-plugin''])\<lparr>repo_type := Some ''plugin''\<rparr>,
        (ex_item 3 ''reader-patches'' [])\<lparr>repo_type := Some ''patch''\<rparr>]
   \<and> item_stream ex_search (search_queries (Some ''koreader-plugin'') [''koplugin'', ''broken''])
     = [ex_item 1 ''Demo.koplugin'' [''koreader-plugin''], ex_item 2 ''sync-plugin'' [],
        ex_item 1 ''Demo.koplugin'' [], ex_item 3 ''reader-patches'' []]
   \<and> distinct (map repo_id
        (search_repositories ex_search (Some ''koreader-plugin'') [''koplugin'', ''broken'']))
   \<and> admitted (ex_item 1 ''Demo.koplugin'' [''koreader-plugin''])
     = Some ((ex_item 1 ''Demo.koplugin'' [''koreader-plugin''])\<lparr>repo_type := Some ''plugin''\<rparr>)"
  using search_deduplicates [of ex_search "Some ''koreader-plugin''" "[''koplugin'', ''broken'']"]
  by (simp add: search_defs)

section \<open>Archive acquisition and patch installation\<close>

lemmas download_defs = download_repository_zip_def release_zip_def branch_url_def base_url_def
  run_def get_patch_files_def contents_url_def endswith_def

lemmas ex_download_defs = ex_http_down_def ex_http_release_def ex_http_patches_def
  ex_device_def ex_worker_def ex_repo_def ex_superscript_name_def


lemma release_zip_log:
  "fst (release_zip h owner repo) =
     [base_url @ ''/repos/'' @ owner @ ''/'' @ repo @ ''/releases'']
   \<or> (\<exists>latest_release older a zip_url.
        get_releases h (base_url @ ''/repos/'' @ owner @ ''/'' @ repo @ ''/releases'')
          = Inr (latest_release # older)
      \<and> first_zip_asset (assets latest_release) = Some a
      \<and> browser_download_url a = Some zip_url
      \<and> fst (release_zip h owner repo) =
          [base_url @ ''/repos/'' @ owner @ ''/'' @ repo @ ''/releases'', zip_url])"
  by (auto simp add: release_zip_def Let_def split: sum.splits list.splits option.splits)





lemma endswith_nil_lua: "\<not> endswith [] ''.lua''"
  by (simp add: endswith_def)

lemma patch_loop_filter:
  "patch_loop files patches = Inr (patches @ map to_patch (filter is_patch_file files))"
proof (induction files arbitrary: patches)
  case Nil
  then show ?case by simp
next
  case (Cons f files)
  show ?case
  proof (cases "file_name f")
    case Nil
    then show ?thesis using Cons.IH[of patches] endswith_nil_lua
      by (simp add: is_patch_file_def)
  next
    case (Cons c cs)
    then show ?thesis
      using Cons.IH[of patches]
        Cons.IH[of "patches @ [\<lparr>patch_name = file_name f,
                                 patch_download_url = file_download_url f,
                                 patch_sha = file_sha f\<rparr>]"]
      by (simp add: is_patch_file_def to_patch_def)
  qed
qed

text \<open>
  C10, as the code has it: the patch files that are considered. \<open>get_patch_files\<close> keeps
  exactly the entries of the repository root whose name ends in \<open>.lua\<close> and whose
  first character satisfies \<open>str.isdigit\<close> (a decimal digit or another digit character,
  such as a superscript digit), in their order; every other entry is left out without
  notice, and a failed listing gives the empty list. When no entry qualifies, the
  patch install emits the failure \<open>No patches found\<close> and leaves the file system as it
  was.
\<close>

theorem patch_files_filter:
  "(get_contents h (contents_url owner repo) = Inr files \<longrightarrow>
      get_patch_files h owner repo = map to_patch (filter is_patch_file files))
   \<and> (get_contents h (contents_url owner repo) = Inl err \<longrightarrow>
      get_patch_files h owner repo = [])
   \<and> (item_type w = ''patch''
      \<and> get_contents h (contents_url (owner_login (item_data w)) (name (item_data w)))
          = Inr files
      \<and> list_all (\<lambda>f. \<not> is_patch_file f) files \<longrightarrow>
      run h d w fs = ([Finished False (Text ''No patches found'')], fs))"
proof -
  have a: "get_patch_files h owner repo = map to_patch (filter is_patch_file files)"
    if "get_contents h (contents_url owner repo) = Inr files"
    using that by (simp add: get_patch_files_def patch_loop_filter)
  have b: "get_patch_files h owner repo = []"
    if "get_contents h (contents_url owner repo) = Inl err"
    using that by (simp add: get_patch_files_def)
  have c: "run h d w fs = ([Finished False (Text ''No patches found'')], fs)"
    if h: "item_type w = ''patch''
      \<and> get_contents h (contents_url (owner_login (item_data w)) (name (item_data w)))
          = Inr files
      \<and> list_all (\<lambda>f. \<not> is_patch_file f) files"
  proof -
    have "filter is_patch_file files = []"
      using h by (simp add: list_all_iff filter_empty_conv)
    then have "get_patch_files h (owner_login (item_data w)) (name (item_data w)) = []"
      using h by (simp add: get_patch_files_def patch_loop_filter)
    then show ?thesis using h by (simp add: run_def Let_def)
  qed
  show ?thesis using a b c by blast
qed

theorem patch_files_filter_witness:
  "get_contents (ex_http_patches [''readme.lua'', ''2-fix.txt''])
       (contents_url ''alice'' ''demo.koplugin'')
     = Inr [\<lparr>file_name = ''readme.lua'',
             file_download_url = Some ''https://example.org/readme.lua'', file_sha = ''0a''\<rparr>,
            \<lparr>file_name = ''2-fix.txt'',
             file_download_url = Some ''https://example.org/2-fix.txt'', file_sha = ''0a''\<rparr>]
   \<and> \<not> is_patch_file \<lparr>file_name = ''readme.lua'',
             file_download_url = Some ''https://example.org/readme.lua'', file_sha = ''0a''\<rparr>
   \<and> \<not> is_patch_file \<lparr>file_name = ''2-fix.txt'',
             file_download_url = Some ''https://example.org/2-fix.txt'', file_sha = ''0a''\<rparr>
   \<and> get_patch_files (ex_http_patches [''readme.lua'', ''2-fix.txt''])
        ''alice'' ''demo.koplugin'' = []
   \<and> run (ex_http_patches [''readme.lua'', ''2-fix.txt'']) ex_device (ex_worker ''patch'')
        [(''kept'', ''file'')]
     = ([Finished False (Text ''No patches found'')], [(''kept'', ''file'')])
   \<and> get_contents ex_http_down (contents_url ''alice'' ''demo.koplugin'')
     = Inl RequestException
   \<and> get_patch_files ex_http_down ''alice'' ''demo.koplugin'' = []"
  using patch_files_filter
      [of "ex_http_patches [''readme.lua'', ''2-fix.txt'']" "''alice''" "''demo.koplugin''"
          "[\<lparr>file_name = ''readme.lua'',
             file_download_url = Some ''https://example.org/readme.lua'', file_sha = ''0a''\<rparr>,
            \<lparr>file_name = ''2-fix.txt'',
             file_download_url = Some ''https://example.org/2-fix.txt'', file_sha = ''0a''\<rparr>]"
          RequestException "ex_worker ''patch''" ex_device "[(''kept'', ''file'')]"]
    patch_files_filter
      [of ex_http_down "''alice''" "''demo.koplugin''" "[]" RequestException
          "ex_worker ''patch''" ex_device "[(''kept'', ''file'')]"]
  by (simp add: ex_download_defs is_patch_file_def isdigit_def is_decimal_def endswith_def)

text \<open>
  C10, as the specification states it, fails. The repository holds one file, whose
  name ends in \<open>.lua\<close> and begins with a superscript two (U+00B2), which is not a
  decimal digit; \<open>str.isdigit\<close> accepts it, so the patch list is not empty and the
  patch is installed.
\<close>

theorem patch_files_filter_counterexample:
  "ex_superscript_name = CHR 0xB2 # ''x.lua''
   \<and> \<not> is_decimal (CHR 0xB2)
   \<and> get_patch_files (ex_http_patches [ex_superscript_name]) ''alice'' ''demo.koplugin''
     = [\<lparr>patch_name = ex_superscript_name,
         patch_download_url = Some (''https://example.org/'' @ ex_superscript_name),
         patch_sha = ''0a''\<rparr>]
   \<and> run (ex_http_patches [ex_superscript_name]) ex_device (ex_worker ''patch'') []
     = ([Progress ''Downloading patches...'',
         Finished True (Text ''1 patch(es) installed!'')],
        [(''/mnt/onboard/.adds/koreader/patches/'' @ ex_superscript_name, ''return {}'')])"
  by (simp add: download_defs ex_download_defs isdigit_def is_decimal_def str_of_nat.simps)

end
